theory Spec2Isabelle
  imports Complex_Main
begin

section \<open>Error reporting: \<open>src/exceptions.ts\<close>\<close>

text \<open>
  An Ajv \<open>ErrorObject\<close>.  The constructor of the exception reads only
  \<open>instancePath\<close> and \<open>keyword\<close> and hands the objects on as they are; the fields
  it does not read (\<open>schemaPath\<close>, \<open>params\<close>, \<open>message\<close>) are left out.
\<close>

record ErrorObject =
  instancePath :: string
  keyword :: string

datatype ValidatorType = Body | Param | Query | Response

text \<open>The string a \<open>ValidatorType\<close> is in the TypeScript source.\<close>

fun typeName :: "ValidatorType \<Rightarrow> string" where
  "typeName Body = ''body''"
| "typeName Param = ''param''"
| "typeName Query = ''query''"
| "typeName Response = ''response''"

text \<open>
  \<open>String.prototype.includes\<close>: \<open>str_includes s p\<close> holds when \<open>p\<close> occurs somewhere in
  \<open>s\<close> as a contiguous run.  \<open>startsWith\<close> is the prefix test the comparison is
  made against.
\<close>

definition startsWith :: "string \<Rightarrow> string \<Rightarrow> bool" where
  "startsWith s p = (take (length p) s = p)"

fun str_includes :: "string \<Rightarrow> string \<Rightarrow> bool" where
  "str_includes [] p = (p = [])"
| "str_includes (c # s) p = (startsWith (c # s) p \<or> str_includes s p)"

text \<open>
  The body of the loop \<open>for (const error of errors)\<close>: the state is the pair
  \<open>(topLevelErrors, unionPaths)\<close>, both grown by \<open>push\<close>.
\<close>

definition errorStep ::
  "ErrorObject list \<times> string list \<Rightarrow> ErrorObject
     \<Rightarrow> ErrorObject list \<times> string list" where
  "errorStep st error =
     (case st of (topLevelErrors, unionPaths) \<Rightarrow>
        if list_ex (\<lambda>path. str_includes (instancePath error) path) unionPaths then st
        else (topLevelErrors @ [error],
              if keyword error = ''oneOf'' \<or> keyword error = ''anyOf''
              then unionPaths @ [instancePath error] else unionPaths))"

text \<open>
  \<open>errors\<close> is \<open>Array<ErrorObject> | null | undefined\<close>: \<open>None\<close> stands for the two
  falsy values, for which the loop is skipped.
\<close>

definition topLevelErrors :: "ErrorObject list option \<Rightarrow> ErrorObject list" where
  "topLevelErrors errors =
     (case errors of None \<Rightarrow> [] | Some es \<Rightarrow> fst (foldl errorStep ([], []) es))"

text \<open>
  The response object handed to \<open>BadRequestException\<close>.  The constructor's
  parameter \<open>errors\<close> is written \<open>rawErrors\<close> below, the field keeps the name.
\<close>

record ExceptionBody =
  statusCode :: nat
  message :: string
  errors :: "ErrorObject list"

text \<open>\<open>HttpStatus.BAD_REQUEST\<close> of \<open>@nestjs/common\<close>.\<close>

definition BAD_REQUEST :: nat where
  "BAD_REQUEST = 400"

text \<open>The constructor in \<open>src/exceptions.ts\<close>, the module \<open>decorators.ts\<close> imports.\<close>

definition AjvValidationException ::
  "ValidatorType \<Rightarrow> ErrorObject list option \<Rightarrow> ExceptionBody" where
  "AjvValidationException type rawErrors =
     \<lparr> statusCode = BAD_REQUEST,
       message = ''Validation failed ('' @ typeName type @ '')'',
       errors = topLevelErrors rawErrors \<rparr>"

text \<open>
  The second copy of the class among the sources (\<open>unnamed/part_000\<close>, the one with
  the type parameters \<open>TRequestSchema\<close> and \<open>TResponseSchema\<close>): the same loop, another
  message.
\<close>

definition AjvValidationException_part_000 ::
  "ValidatorType \<Rightarrow> ErrorObject list option \<Rightarrow> ExceptionBody" where
  "AjvValidationException_part_000 type rawErrors =
     \<lparr> statusCode = BAD_REQUEST,
       message = ''Validation error ('' @ typeName type @ '')'',
       errors = topLevelErrors rawErrors \<rparr>"


section \<open>Values\<close>

text \<open>
  A schema is a JSON-like document that \<open>validate\<close> only reads, so it is a tree.  The
  only operation the code applies to a numeric leaf of a schema is \<open>String(...)\<close>;
  a number is therefore kept as its JavaScript rendering.  An object is the list of its
  own enumerable properties in enumeration order.
\<close>

datatype json =
    JUndefined
  | JNull
  | JBool bool
  | JNum string
  | JStr string
  | JArr "json list"
  | JObj "(string \<times> json) list"

text \<open>
  The data handed to \<open>validate\<close> is mutated in place and may be aliased, so it lives in
  a store: a value is a primitive or a reference, an address is an index into the store,
  and a fresh object is appended at the end.  A record is the list of its own enumerable
  properties in enumeration order; every record and the object \<open>knownPropTypes\<close> inherit
  from \<open>Object.prototype\<close>, whose members are listed below where the code reads them.
\<close>

type_synonym addr = nat

datatype val =
    Undefined
  | Null
  | Bool bool
  | Num rat
  | Str string
  | Ref addr

datatype obj =
    Record "(string \<times> val) list"
  | Array "val list"

type_synonym heap = "obj list"

definition deref :: "heap \<Rightarrow> addr \<Rightarrow> obj option" where
  "deref h a = (if a < length h then Some (h ! a) else None)"

text \<open>\<open>Array.isArray\<close>.\<close>

definition isArray :: "heap \<Rightarrow> val \<Rightarrow> bool" where
  "isArray h v =
     (case v of
        Ref a \<Rightarrow> (case deref h a of Some (Array xs) \<Rightarrow> True | _ \<Rightarrow> False)
      | _ \<Rightarrow> False)"

text \<open>\<open>data[prop]\<close>: a missing property reads as \<open>undefined\<close>.\<close>

definition readProp :: "heap \<Rightarrow> addr \<Rightarrow> string \<Rightarrow> val" where
  "readProp h a prop =
     (case deref h a of
        Some (Record ps) \<Rightarrow> (case map_of ps prop of Some v \<Rightarrow> v | None \<Rightarrow> Undefined)
      | _ \<Rightarrow> Undefined)"

text \<open>
  \<open>processedData[prop] = v\<close>: an existing property keeps its place, a new one goes to
  the end.  The name \<open>__proto__\<close> is the exception: on a record without a property of
  its own under that name the assignment runs the setter that \<open>Object.prototype\<close>
  defines, and no property is added.  (For a primitive \<open>v\<close> the setter does nothing; for
  an object or \<open>null\<close> it replaces the prototype of the record, which the store does not
  hold.)
\<close>

definition setProp :: "(string \<times> val) list \<Rightarrow> string \<Rightarrow> val \<Rightarrow> (string \<times> val) list" where
  "setProp ps prop v =
     (if prop \<in> fst ` set ps
      then map (\<lambda>kv. if fst kv = prop then (prop, v) else kv) ps
      else if prop = ''__proto__'' then ps
      else ps @ [(prop, v)])"

definition writeProp :: "heap \<Rightarrow> addr \<Rightarrow> string \<Rightarrow> val \<Rightarrow> heap" where
  "writeProp h a prop v =
     (case deref h a of
        Some (Record ps) \<Rightarrow> h[a := Record (setProp ps prop v)]
      | _ \<Rightarrow> h)"

text \<open>The names \<open>for (const prop in data)\<close> runs through.\<close>

definition ownKeys :: "heap \<Rightarrow> addr \<Rightarrow> string list" where
  "ownKeys h a = (case deref h a of Some (Record ps) \<Rightarrow> map fst ps | _ \<Rightarrow> [])"

text \<open>\<open>dataArray[i] = v\<close>.\<close>

definition writeItem :: "heap \<Rightarrow> addr \<Rightarrow> nat \<Rightarrow> val \<Rightarrow> heap" where
  "writeItem h a i v =
     (case deref h a of
        Some (Array xs) \<Rightarrow> h[a := Array (xs[i := v])]
      | _ \<Rightarrow> h)"

definition readItem :: "heap \<Rightarrow> addr \<Rightarrow> nat \<Rightarrow> val" where
  "readItem h a i =
     (case deref h a of
        Some (Array xs) \<Rightarrow> (if i < length xs then xs ! i else Undefined)
      | _ \<Rightarrow> Undefined)"

definition arrayLength :: "heap \<Rightarrow> addr \<Rightarrow> nat" where
  "arrayLength h a = (case deref h a of Some (Array xs) \<Rightarrow> length xs | _ \<Rightarrow> 0)"

section \<open>The helpers of \<open>util.ts\<close>\<close>

text \<open>
  Modelled from the spec: \<open>isObj\<close> of \<open>util.ts\<close>, which is not among the sources.  The
  spec's words are "if the element is a plain key-value record".
\<close>

definition isObj :: "heap \<Rightarrow> val \<Rightarrow> bool" where
  "isObj h v =
     (case v of
        Ref a \<Rightarrow> (case deref h a of Some (Record ps) \<Rightarrow> True | _ \<Rightarrow> False)
      | _ \<Rightarrow> False)"

text \<open>
  Modelled from the spec: what a "numeric-looking string" is, which the spec leaves to
  \<open>util.ts\<close>.  It is read here as an optional minus sign, one or more decimal digits
  and an optional fraction of one or more digits; the value is exact.
\<close>

definition isDigit :: "char \<Rightarrow> bool" where
  "isDigit c = (c \<in> set ''0123456789'')"

definition digitsValue :: "string \<Rightarrow> nat" where
  "digitsValue ds = foldl (\<lambda>acc c. 10 * acc + (of_char c - 48)) 0 ds"

definition parseNumeric :: "string \<Rightarrow> rat option" where
  "parseNumeric s =
     (let negative = (s \<noteq> [] \<and> hd s = CHR ''-'');
          unsigned = (if negative then tl s else s);
          whole = takeWhile (\<lambda>c. c \<noteq> CHR ''.'') unsigned;
          rest = dropWhile (\<lambda>c. c \<noteq> CHR ''.'') unsigned;
          frac = tl rest
      in if whole \<noteq> [] \<and> list_all isDigit whole
            \<and> (rest = [] \<or> (frac \<noteq> [] \<and> list_all isDigit frac))
         then Some ((if negative then - 1 else 1)
                    * (of_nat (digitsValue whole) + of_nat (digitsValue frac) / 10 ^ length frac))
         else None)"

text \<open>
  Modelled from the spec: \<open>coerceType\<close> of \<open>util.ts\<close>, which is not among the sources.
  The spec's words: target \<open>integer\<close> or \<open>number\<close>, "if the raw value is a
  numeric-looking string, parse it; non-numeric strings and non-string non-number values
  pass through unchanged"; target \<open>boolean\<close>, "string true/false (case-sensitive) map
  to the boolean; anything else passes through unchanged"; target \<open>string\<close> or any
  other, "value passes through unchanged".
\<close>

definition coerceType :: "string \<Rightarrow> val \<Rightarrow> val" where
  "coerceType type v =
     (if type = ''integer'' \<or> type = ''number'' then
        (case v of
           Str s \<Rightarrow> (case parseNumeric s of Some r \<Rightarrow> Num r | None \<Rightarrow> v)
         | _ \<Rightarrow> v)
      else if type = ''boolean'' then
        (case v of
           Str s \<Rightarrow> (if s = ''true'' then Bool True else if s = ''false'' then Bool False else v)
         | _ \<Rightarrow> v)
      else v)"

section \<open>Reading the schema\<close>

datatype error =
    Error string
  | TypeError
  | BadRequestException ExceptionBody

text \<open>
  \<open>o.prop\<close> on a schema value: reading a property of \<open>null\<close> or \<open>undefined\<close> throws
  a \<open>TypeError\<close>, a property the value does not have reads as \<open>undefined\<close>.  The
  names read are \<open>items\<close>, \<open>anyOf\<close>, \<open>allOf\<close>, \<open>properties\<close> and \<open>type\<close>, none of
  which a primitive or an array has.
\<close>

fun getProp :: "json \<Rightarrow> string \<Rightarrow> error + json" where
  "getProp (JObj ps) prop = (case map_of ps prop of Some v \<Rightarrow> Inr v | None \<Rightarrow> Inr JUndefined)"
| "getProp JUndefined prop = Inl TypeError"
| "getProp JNull prop = Inl TypeError"
| "getProp j prop = Inr JUndefined"

text \<open>The left operand of \<open>??\<close> is dropped when it is \<open>null\<close> or \<open>undefined\<close>.\<close>

fun nullish :: "json \<Rightarrow> bool" where
  "nullish JUndefined = True"
| "nullish JNull = True"
| "nullish j = False"

definition digitChar :: "nat \<Rightarrow> char" where
  "digitChar d = char_of (48 + d)"

fun showNat :: "nat \<Rightarrow> string" where
  "showNat n = (if n < 10 then [digitChar n] else showNat (n div 10) @ [digitChar (n mod 10)])"

text \<open>
  \<open>Object.entries\<close> of a value that is not nullish: the own enumerable properties of
  an object, the indexed elements of an array, the indexed characters of a string,
  nothing for a number or a boolean.
\<close>

fun entries :: "json \<Rightarrow> (string \<times> json) list" where
  "entries (JObj ps) = ps"
| "entries (JArr xs) = zip (map showNat [0..<length xs]) xs"
| "entries (JStr cs) = zip (map showNat [0..<length cs]) (map (\<lambda>c. JStr [c]) cs)"
| "entries j = []"

fun join :: "string list \<Rightarrow> string" where
  "join [] = []"
| "join [x] = x"
| "join (x # y # ys) = x @ '','' @ join (y # ys)"

text \<open>
  \<open>String(v)\<close>.  An array is rendered by \<open>join\<close>, where \<open>null\<close> and \<open>undefined\<close>
  elements give the empty string.
\<close>

fun js_String :: "json \<Rightarrow> string" where
  "js_String JUndefined = ''undefined''"
| "js_String JNull = ''null''"
| "js_String (JBool b) = (if b then ''true'' else ''false'')"
| "js_String (JNum rendering) = rendering"
| "js_String (JStr cs) = cs"
| "js_String (JArr xs) = join (map (\<lambda>x. if nullish x then [] else js_String x) xs)"
| "js_String (JObj ps) = ''[object Object]''"

text \<open>
  \<open>def && typeof def === 'object' && 'type' in def ? String(def.type) : 'unknown'\<close>:
  only an object can have the key; an array is an object without it.
\<close>

fun propType :: "json \<Rightarrow> string" where
  "propType (JObj ps) = (case map_of ps ''type'' of Some t \<Rightarrow> js_String t | None \<Rightarrow> ''unknown'')"
| "propType def = ''unknown''"

text \<open>The body of the \<open>for ... of Object.entries(...)\<close> loop inside the reducer.\<close>

definition addProp :: "(string \<rightharpoonup> string) \<Rightarrow> string \<times> json \<Rightarrow> (string \<rightharpoonup> string)" where
  "addProp obj entry = obj(fst entry \<mapsto> propType (snd entry))"

text \<open>The reducer: one branch of the schema added to the map built so far.\<close>

definition reducer :: "(string \<rightharpoonup> string) \<Rightarrow> json \<Rightarrow> error + (string \<rightharpoonup> string)" where
  "reducer obj schema =
     (case getProp schema ''properties'' of
        Inl e \<Rightarrow> Inl e
      | Inr properties \<Rightarrow>
          Inr (foldl addProp obj (entries (if nullish properties then JObj [] else properties))))"

text \<open>\<open>Array.prototype.reduce\<close> with a reducer that may throw.\<close>

fun reduce :: "(string \<rightharpoonup> string) \<Rightarrow> json list \<Rightarrow> error + (string \<rightharpoonup> string)" where
  "reduce obj [] = Inr obj"
| "reduce obj (schema # schemas) =
     (case reducer obj schema of
        Inl e \<Rightarrow> Inl e
      | Inr obj' \<Rightarrow> reduce obj' schemas)"

text \<open>
  \<open>jsonSchema.anyOf ?? jsonSchema.allOf ?? [jsonSchema]\<close>; \<open>allOf\<close> is read only when
  \<open>anyOf\<close> is nullish.
\<close>

definition branches :: "json \<Rightarrow> error + json" where
  "branches jsonSchema =
     (case getProp jsonSchema ''anyOf'' of
        Inl e \<Rightarrow> Inl e
      | Inr anyOf \<Rightarrow>
          if \<not> nullish anyOf then Inr anyOf
          else (case getProp jsonSchema ''allOf'' of
                  Inl e \<Rightarrow> Inl e
                | Inr allOf \<Rightarrow> if \<not> nullish allOf then Inr allOf else Inr (JArr [jsonSchema])))"

text \<open>
  The constant \<open>knownPropTypes\<close>.  A value that is not an array has no \<open>reduce\<close>, and
  calling it throws a \<open>TypeError\<close>.
\<close>

definition knownPropTypes :: "json \<Rightarrow> error + (string \<rightharpoonup> string)" where
  "knownPropTypes jsonSchema =
     (case branches jsonSchema of
        Inl e \<Rightarrow> Inl e
      | Inr (JArr schemas) \<Rightarrow> reduce Map.empty schemas
      | Inr other \<Rightarrow> Inl TypeError)"

text \<open>\<open>typeof jsonSchema.type === 'string'\<close>, with the string when it holds.\<close>

definition schemaType :: "json \<Rightarrow> string option" where
  "schemaType jsonSchema =
     (case jsonSchema of
        JObj ps \<Rightarrow> (case map_of ps ''type'' of Some (JStr t) \<Rightarrow> Some t | _ \<Rightarrow> None)
      | _ \<Rightarrow> None)"

section \<open>\<open>validate\<close>: \<open>src/decorators.ts\<close>\<close>

text \<open>
  The flags of a config are optional booleans; an absent flag is falsy.
\<close>

definition truthy :: "bool option \<Rightarrow> bool" where
  "truthy flag = (flag = Some True)"

text \<open>
  The names \<open>Object.prototype\<close> defines.  Each of them holds a function, except
  \<open>__proto__\<close>, an accessor that reads as the prototype of the object.
\<close>

definition objectPrototypeKeys :: "string list" where
  "objectPrototypeKeys =
     [''constructor'', ''__defineGetter__'', ''__defineSetter__'', ''hasOwnProperty'',
      ''__lookupGetter__'', ''__lookupSetter__'', ''isPrototypeOf'', ''propertyIsEnumerable'',
      ''toString'', ''valueOf'', ''__proto__'', ''toLocaleString'']"

text \<open>
  The value of \<open>knownPropTypes[prop]\<close>.  The object the reducer fills starts as \<open>{}\<close>,
  so a name it has no property of its own under reads as the member of
  \<open>Object.prototype\<close> of that name when there is one, and as \<open>undefined\<close> only
  otherwise.  Under \<open>__proto__\<close> the object never has a property of its own: the
  assignment of a string in the reducer runs the setter, which ignores a string, so the
  read gives the prototype whatever the schema declares.
\<close>

datatype lookup =
    Own string
  | Inherited
  | Absent

definition lookupProp :: "(string \<rightharpoonup> string) \<Rightarrow> string \<Rightarrow> lookup" where
  "lookupProp known prop =
     (if prop = ''__proto__'' then Inherited
      else (case known prop of
              Some type \<Rightarrow> Own type
            | None \<Rightarrow> if prop \<in> set objectPrototypeKeys then Inherited else Absent))"

text \<open>
  \<open>coerceType(knownPropTypes[prop], data[prop])\<close>.  Modelled from the spec for the
  inherited member: the type is then a function or an object, none of the targets the
  spec names, and for an "unknown/unmapped type" the "value passes through unchanged".
\<close>

fun coerceFound :: "lookup \<Rightarrow> val \<Rightarrow> val" where
  "coerceFound (Own type) v = coerceType type v"
| "coerceFound found v = v"

text \<open>
  The loop \<open>for (const prop in data)\<close>, over the names of \<open>data\<close> taken when the loop
  starts: \<open>data\<close> is the record at address \<open>d\<close>, \<open>processedData\<close> the record at
  address \<open>p\<close> (the same address when nothing is stripped).  A name is skipped only when
  \<open>knownPropTypes[prop]\<close> is \<open>undefined\<close>.
\<close>

fun forProps ::
  "bool option \<Rightarrow> bool option \<Rightarrow> (string \<rightharpoonup> string) \<Rightarrow> addr \<Rightarrow> addr \<Rightarrow> string list \<Rightarrow> heap \<Rightarrow> heap" where
  "forProps coerceTypes stripUnknownProps known d p [] h = h"
| "forProps coerceTypes stripUnknownProps known d p (prop # props) h =
     (case lookupProp known prop of
        Absent \<Rightarrow> forProps coerceTypes stripUnknownProps known d p props h
      | found \<Rightarrow>
          (let h1 = (if truthy stripUnknownProps then writeProp h p prop (readProp h d prop) else h);
               h2 = (if truthy coerceTypes
                     then writeProp h1 p prop (coerceFound found (readProp h1 d prop)) else h1)
           in forProps coerceTypes stripUnknownProps known d p props h2))"

text \<open>
  The body of the loop over \<open>dataArray\<close>, for the element \<open>data\<close>: the store after it
  and the value \<open>dataArray[i]\<close> then holds (the element itself when no branch assigns).
  \<open>processedData\<close> is a new empty record, allocated at the end of the store, when
  \<open>stripUnknownProps\<close> is set, and \<open>data\<close> itself otherwise.  Only a reference can
  be a record.
\<close>

definition processItem ::
  "bool option \<Rightarrow> bool option \<Rightarrow> (string \<rightharpoonup> string) \<Rightarrow> json \<Rightarrow> heap \<Rightarrow> val \<Rightarrow> heap \<times> val" where
  "processItem coerceTypes stripUnknownProps known jsonSchema h data =
     (if isObj h data then
        (case data of
           Ref d \<Rightarrow>
             (let p = (if truthy stripUnknownProps then length h else d);
                  h0 = (if truthy stripUnknownProps then h @ [Record []] else h)
              in (forProps coerceTypes stripUnknownProps known d p (ownKeys h d) h0, Ref p))
         | _ \<Rightarrow> (h, data))
      else if truthy coerceTypes \<and> schemaType jsonSchema \<noteq> None
      then (h, coerceType (the (schemaType jsonSchema)) data)
      else (h, data))"

text \<open>
  The loop \<open>for (let i = 0; i < dataArray.length; i++)\<close> when \<open>dataArray\<close> is the input
  array itself, at address \<open>a\<close>: each element is read from the store, processed, and
  written back into the same array.  No write of the loop changes the length of an
  array, so the indices are those below the length at the start.
\<close>

fun forItems ::
  "bool option \<Rightarrow> bool option \<Rightarrow> (string \<rightharpoonup> string) \<Rightarrow> json \<Rightarrow> addr \<Rightarrow> nat list \<Rightarrow> heap \<Rightarrow> heap" where
  "forItems coerceTypes stripUnknownProps known jsonSchema a [] h = h"
| "forItems coerceTypes stripUnknownProps known jsonSchema a (i # is) h =
     (case processItem coerceTypes stripUnknownProps known jsonSchema h (readItem h a i) of
        (h', v) \<Rightarrow> forItems coerceTypes stripUnknownProps known jsonSchema a is (writeItem h' a i v))"

text \<open>
  The block guarded by \<open>if (coerceTypes || stripUnknownProps)\<close>: the store after it and
  the value of \<open>processedDataOrArray\<close>.  For an input that is not an array,
  \<open>dataArray\<close> is the one-element array made for the purpose, which nothing else refers
  to and which is dropped after \<open>dataArray[0]\<close> is read; it is not put in the store.
\<close>

definition processedDataOrArray ::
  "json \<Rightarrow> bool option \<Rightarrow> bool option \<Rightarrow> heap \<Rightarrow> val \<Rightarrow> error + heap \<times> val" where
  "processedDataOrArray schema coerceTypes stripUnknownProps h dataOrArray =
     (if truthy coerceTypes \<or> truthy stripUnknownProps then
        (case (if isArray h dataOrArray
               then (case getProp schema ''items'' of
                       Inl e \<Rightarrow> Inl e
                     | Inr items \<Rightarrow> Inr (if nullish items then JObj [] else items))
               else Inr schema) of
           Inl e \<Rightarrow> Inl e
         | Inr jsonSchema \<Rightarrow>
             (case knownPropTypes jsonSchema of
                Inl e \<Rightarrow> Inl e
              | Inr known \<Rightarrow>
                  (case dataOrArray of
                     Ref a \<Rightarrow>
                       if isArray h dataOrArray
                       then Inr (forItems coerceTypes stripUnknownProps known jsonSchema a
                                   [0..<arrayLength h a] h, dataOrArray)
                       else Inr (processItem coerceTypes stripUnknownProps known jsonSchema h dataOrArray)
                   | _ \<Rightarrow> Inr (processItem coerceTypes stripUnknownProps known jsonSchema h dataOrArray))))
      else Inr (h, dataOrArray))"

text \<open>
  The compiled Ajv checker \<open>check\<close> is a parameter.  The Ajv instance is configured
  with \<open>coerceTypes\<close>, \<open>useDefaults\<close> and \<open>removeAdditional\<close>, so a call may itself
  write to the data: it returns the store it leaves, the boolean result and the value of
  \<open>check.errors\<close> afterwards.
\<close>

type_synonym checker = "heap \<Rightarrow> val \<Rightarrow> heap \<times> bool \<times> ErrorObject list option"

definition validate ::
  "ValidatorType \<Rightarrow> json \<Rightarrow> bool option \<Rightarrow> bool option \<Rightarrow> bool option \<Rightarrow> checker
     \<Rightarrow> heap \<Rightarrow> val \<Rightarrow> heap \<times> (error + val)" where
  "validate type schema coerceTypes stripUnknownProps required check h dataOrArray =
     (case processedDataOrArray schema coerceTypes stripUnknownProps h dataOrArray of
        Inl e \<Rightarrow> (h, Inl e)
      | Inr (h1, processed) \<Rightarrow>
          if processed = Undefined \<and> \<not> truthy required then (h1, Inr Undefined)
          else (case check h1 processed of
                  (h2, ok, checkErrors) \<Rightarrow>
                    if ok then (h2, Inr processed)
                    else (h2, Inl (BadRequestException (AjvValidationException type checkErrors)))))"

section \<open>\<open>buildSchemaValidator\<close>\<close>

record SchemaValidatorConfig =
  c_type :: "ValidatorType option"
  c_schema :: json
  c_coerceTypes :: "bool option"
  c_stripUnknownProps :: "bool option"
  c_name :: "string option"
  c_required :: "bool option"

record SchemaValidator =
  sv_schema :: json
  sv_name :: string
  sv_check :: checker
  sv_validate :: "heap \<Rightarrow> val \<Rightarrow> heap \<times> (error + val)"

text \<open>
  \<open>TypeGuard.IsSchema\<close> belongs to TypeBox: it accepts an object that carries one of
  the kinds TypeBox knows.  The test of the kind is the parameter \<open>isKind\<close>; that
  nothing but an object passes is written out, since an absent schema reaches the guard
  as \<open>undefined\<close>.
\<close>

definition IsSchema :: "(json \<Rightarrow> bool) \<Rightarrow> json \<Rightarrow> bool" where
  "IsSchema isKind schema = (case schema of JObj ps \<Rightarrow> isKind schema | _ \<Rightarrow> False)"

text \<open>
  \<open>ajv.compile\<close> is the parameter \<open>compile\<close>: it throws an \<open>Error\<close> with Ajv's message
  (\<open>Inl\<close>) or returns the checker.  An absent \<open>type\<close> or \<open>name\<close> is \<open>None\<close>, an absent
  \<open>schema\<close> is \<open>JUndefined\<close>.
\<close>

definition buildSchemaValidator ::
  "(json \<Rightarrow> bool) \<Rightarrow> (json \<Rightarrow> string + checker) \<Rightarrow> SchemaValidatorConfig
     \<Rightarrow> error + SchemaValidator" where
  \<open>buildSchemaValidator isKind compile config =
     (case c_type config of
        None \<Rightarrow> Inl (Error ''Validator missing "type".'')
      | Some type \<Rightarrow>
          (case c_name config of
             None \<Rightarrow> Inl (Error (''Validator of type "'' @ typeName type @ ''" missing name.''))
           | Some name \<Rightarrow>
               if name = [] then Inl (Error (''Validator of type "'' @ typeName type @ ''" missing name.''))
               else if \<not> IsSchema isKind (c_schema config)
               then Inl (Error (''Validator "'' @ name @ ''" expects a TypeBox schema.''))
               else (case compile (c_schema config) of
                       Inl msg \<Rightarrow> Inl (Error msg)
                     | Inr check \<Rightarrow>
                         Inr \<lparr> sv_schema = c_schema config,
                               sv_name = name,
                               sv_check = check,
                               sv_validate = validate type (c_schema config) (c_coerceTypes config)
                                 (c_stripUnknownProps config) (c_required config) check \<rparr>)))\<close>

section \<open>Concrete schemas and checkers used in the examples\<close>

text \<open>The schema \<open>{properties: {age: {type: "integer"}}}\<close>.\<close>

definition ageSchema :: json where
  "ageSchema = JObj [(''properties'', JObj [(''age'', JObj [(''type'', JStr ''integer'')])])]"

text \<open>A checker that accepts every value and writes nothing.\<close>

definition acceptAll :: checker where
  "acceptAll h v = (h, True, None)"

text \<open>
  What the checker does that the Ajv instance of \<open>decorators.ts\<close> compiles from
  \<open>ageSchema\<close>.  The schema constrains nothing but the property \<open>age\<close> of an object,
  so a record without \<open>age\<close> and a value that is not a record are accepted as they are.
  The instance is made with \<open>coerceTypes\<close>: where \<open>age\<close> is not an integer but can be
  coerced to one (a string that reads as an integer, a boolean, \<open>null\<close>), the number is
  written into the record and the record is accepted; otherwise the result is \<open>false\<close>
  with one error of keyword \<open>type\<close> at \<open>/age\<close>.  (An array of one element, which Ajv
  unwraps, is rejected here; no example below has one.)
\<close>

definition ageError :: ErrorObject where
  "ageError = \<lparr> instancePath = ''/age'', keyword = ''type'' \<rparr>"

definition ajvAgeCheck :: checker where
  "ajvAgeCheck h v =
     (case v of
        Ref a \<Rightarrow>
          (case deref h a of
             Some (Record ps) \<Rightarrow>
               (case map_of ps ''age'' of
                  None \<Rightarrow> (h, True, None)
                | Some Undefined \<Rightarrow> (h, True, None)
                | Some Null \<Rightarrow> (writeProp h a ''age'' (Num 0), True, None)
                | Some (Bool b) \<Rightarrow> (writeProp h a ''age'' (Num (if b then 1 else 0)), True, None)
                | Some (Num r) \<Rightarrow> if r \<in> \<int> then (h, True, None) else (h, False, Some [ageError])
                | Some (Str s) \<Rightarrow>
                    (case parseNumeric s of
                       Some r \<Rightarrow>
                         if r \<in> \<int> then (writeProp h a ''age'' (Num r), True, None)
                         else (h, False, Some [ageError])
                     | None \<Rightarrow> (h, False, Some [ageError]))
                | Some (Ref q) \<Rightarrow> (h, False, Some [ageError]))
           | _ \<Rightarrow> (h, True, None))
      | _ \<Rightarrow> (h, True, None))"

text \<open>
  A kind test that accepts every object and a compiler that compiles every schema to
  \<open>acceptAll\<close>.
\<close>

definition anyKind :: "json \<Rightarrow> bool" where
  "anyKind schema = True"

definition compileAll :: "json \<Rightarrow> string + checker" where
  "compileAll schema = Inr acceptAll"





section \<open>What the property map is compared with\<close>



section \<open>What the processed data is compared with\<close>

text \<open>
  The value a property has after the loop, given what \<open>knownPropTypes\<close> holds under its
  name: coerced to the declared type when \<open>coerceTypes\<close> is set and the type is the
  map's own, as it was otherwise.
\<close>

definition processedValue :: "bool option \<Rightarrow> lookup \<Rightarrow> val \<Rightarrow> val" where
  "processedValue coerceTypes found v = (if truthy coerceTypes then coerceFound found v else v)"

text \<open>
  Under \<open>stripUnknownProps\<close>: the properties that the new record gets, in their order.
  A name absent from the map and from \<open>Object.prototype\<close> is dropped; so is
  \<open>__proto__\<close>, which no assignment adds to the new record.
\<close>

fun keptProps :: "bool option \<Rightarrow> (string \<rightharpoonup> string) \<Rightarrow> (string \<times> val) list \<Rightarrow> (string \<times> val) list" where
  "keptProps coerceTypes known [] = []"
| "keptProps coerceTypes known (kv # ps) =
     (if lookupProp known (fst kv) = Absent \<or> fst kv = ''__proto__''
      then keptProps coerceTypes known ps
      else (fst kv, processedValue coerceTypes (lookupProp known (fst kv)) (snd kv))
             # keptProps coerceTypes known ps)"


text \<open>
  An array processed under \<open>stripUnknownProps\<close>.  The value an element that is not a
  record has afterwards:
\<close>

definition itemValue :: "bool option \<Rightarrow> json \<Rightarrow> val \<Rightarrow> val" where
  "itemValue coerceTypes jsonSchema x =
     (if truthy coerceTypes \<and> schemaType jsonSchema \<noteq> None
      then coerceType (the (schemaType jsonSchema)) x else x)"

text \<open>The own properties of the record an element refers to.\<close>

definition recordProps :: "heap \<Rightarrow> val \<Rightarrow> (string \<times> val) list" where
  "recordProps h x =
     (case x of
        Ref d \<Rightarrow> (case deref h d of Some (Record ps) \<Rightarrow> ps | _ \<Rightarrow> [])
      | _ \<Rightarrow> [])"

text \<open>
  The elements of the array afterwards: a record element is replaced by a reference to
  the next fresh address \<open>n\<close>, any other element by its item value.
\<close>

fun strippedItems :: "bool option \<Rightarrow> json \<Rightarrow> heap \<Rightarrow> val list \<Rightarrow> addr \<Rightarrow> val list" where
  "strippedItems coerceTypes jsonSchema h [] n = []"
| "strippedItems coerceTypes jsonSchema h (x # xs) n =
     (if isObj h x
      then Ref n # strippedItems coerceTypes jsonSchema h xs (Suc n)
      else itemValue coerceTypes jsonSchema x # strippedItems coerceTypes jsonSchema h xs n)"

text \<open>The records allocated for the record elements, in the order of the elements.\<close>

fun strippedRecords :: "bool option \<Rightarrow> (string \<rightharpoonup> string) \<Rightarrow> heap \<Rightarrow> val list \<Rightarrow> obj list" where
  "strippedRecords coerceTypes known h [] = []"
| "strippedRecords coerceTypes known h (x # xs) =
     (if isObj h x
      then Record (keptProps coerceTypes known (recordProps h x)) # strippedRecords coerceTypes known h xs
      else strippedRecords coerceTypes known h xs)"

section \<open>Properties of the error report\<close>

lemma startsWith_iff: "startsWith s p \<longleftrightarrow> (\<exists>v. s = p @ v)"
  unfolding startsWith_def by (metis append_eq_conv_conj append_take_drop_id)

lemma str_includes_iff: "str_includes s p \<longleftrightarrow> (\<exists>u v. s = u @ p @ v)"
proof (induction s)
  case Nil
  show ?case by auto
next
  case (Cons c s)
  show ?case
  proof
    assume "str_includes (c # s) p"
    then consider "startsWith (c # s) p" | "str_includes s p" by auto
    then show "\<exists>u v. c # s = u @ p @ v"
    proof cases
      case 1
      then obtain v where "c # s = p @ v" using startsWith_iff by blast
      then have "c # s = [] @ p @ v" by simp
      then show ?thesis by blast
    next
      case 2
      then obtain u v where "s = u @ p @ v" using Cons.IH by blast
      then have "c # s = (c # u) @ p @ v" by simp
      then show ?thesis by blast
    qed
  next
    assume "\<exists>u v. c # s = u @ p @ v"
    then obtain u v where e: "c # s = u @ p @ v" by blast
    show "str_includes (c # s) p"
    proof (cases u)
      case Nil
      with e have "startsWith (c # s) p" using startsWith_iff by auto
      then show ?thesis by simp
    next
      case (Cons a u')
      then have "s = u' @ p @ v" using e by simp
      then show ?thesis using Cons.IH by auto
    qed
  qed
qed

text \<open>A prefix is an occurrence, so everything under a recorded path is dropped.\<close>

lemma startsWith_str_includes: "startsWith s p \<Longrightarrow> str_includes s p"
  by (cases s) (auto simp: startsWith_def)

text \<open>What one step of the loop does: an error is dropped exactly when some recorded path occurs in its path.\<close>

lemma errorStep_drops_iff:
  "errorStep (kept, unionPaths) error = (kept, unionPaths)
   \<longleftrightarrow> (\<exists>path\<in>set unionPaths. \<exists>u v. instancePath error = u @ path @ v)"
  by (auto simp: errorStep_def list_ex_iff str_includes_iff)

text \<open>The example of the specification: the entry under \<open>/a\<close> is suppressed.\<close>

lemma topLevelErrors_example:
  "topLevelErrors (Some [\<lparr>instancePath = ''/a'', keyword = ''oneOf''\<rparr>,
                         \<lparr>instancePath = ''/a/b'', keyword = ''type''\<rparr>,
                         \<lparr>instancePath = ''/c'', keyword = ''type''\<rparr>])
   = [\<lparr>instancePath = ''/a'', keyword = ''oneOf''\<rparr>, \<lparr>instancePath = ''/c'', keyword = ''type''\<rparr>]"
  by (simp add: topLevelErrors_def errorStep_def startsWith_def)

text \<open>
  Claim C1.  The claim is that an error is discarded if and only if its instance path
  starts with a union path recorded earlier.  The loop tests \<open>includes\<close>, an occurrence
  anywhere: after the \<open>anyOf\<close> error at \<open>/a\<close> the error at \<open>/b/a\<close> is discarded,
  although \<open>/b/a\<close> does not start with \<open>/a\<close>.
\<close>

theorem topLevelErrors_drops_non_prefix:
  "topLevelErrors (Some [\<lparr>instancePath = ''/a'', keyword = ''anyOf''\<rparr>,
                         \<lparr>instancePath = ''/b/a'', keyword = ''type''\<rparr>])
     = [\<lparr>instancePath = ''/a'', keyword = ''anyOf''\<rparr>]
   \<and> \<not> startsWith ''/b/a'' ''/a''"
  by (simp add: topLevelErrors_def errorStep_def startsWith_def)

section \<open>Errors of the schema reading\<close>

lemma getProp_Inl: "getProp j prop = Inl e \<Longrightarrow> e = TypeError"
  by (cases j) (auto split: option.splits)

lemma reducer_Inl: "reducer obj schema = Inl e \<Longrightarrow> e = TypeError"
  by (auto simp: reducer_def split: sum.splits dest: getProp_Inl)

lemma reduce_Inl: "reduce obj schemas = Inl e \<Longrightarrow> e = TypeError"
  by (induction schemas arbitrary: obj) (auto split: sum.splits dest: reducer_Inl)

lemma branches_Inl: "branches jsonSchema = Inl e \<Longrightarrow> e = TypeError"
  by (auto simp: branches_def split: sum.splits if_splits dest: getProp_Inl)

lemma knownPropTypes_Inl: "knownPropTypes jsonSchema = Inl e \<Longrightarrow> e = TypeError"
  by (auto simp: knownPropTypes_def split: sum.splits json.splits dest: branches_Inl reduce_Inl)

lemma processedDataOrArray_Inl:
  "processedDataOrArray schema coerceTypes stripUnknownProps h dataOrArray = Inl e \<Longrightarrow> e = TypeError"
  by (auto simp: processedDataOrArray_def split: if_splits sum.splits val.splits
           dest: getProp_Inl knownPropTypes_Inl)
section \<open>Properties of \<open>validate\<close>\<close>

text \<open>
  The body a raised \<open>BadRequestException\<close> carries, for both copies of the constructor:
  status 400, the filtered error list, and a message that differs between the copies.
  Whenever \<open>validate\<close> raises, the checker has rejected the processed data and the body
  is the one the constructor of \<open>src/exceptions.ts\<close> builds from \<open>check.errors\<close>.
\<close>

lemma validate_failure_body:
  "AjvValidationException type raw
     = \<lparr> statusCode = 400, message = ''Validation failed ('' @ typeName type @ '')'',
         errors = topLevelErrors raw \<rparr>
   \<and> AjvValidationException_part_000 type raw
     = \<lparr> statusCode = 400, message = ''Validation error ('' @ typeName type @ '')'',
         errors = topLevelErrors raw \<rparr>
   \<and> (validate type schema coerceTypes stripUnknownProps required check h dataOrArray
        = (h', Inl (BadRequestException b))
      \<longrightarrow> (\<exists>h1 processed checkErrors.
            processedDataOrArray schema coerceTypes stripUnknownProps h dataOrArray
              = Inr (h1, processed)
          \<and> check h1 processed = (h', False, checkErrors)
          \<and> b = \<lparr> statusCode = 400, message = ''Validation failed ('' @ typeName type @ '')'',
                  errors = topLevelErrors checkErrors \<rparr>))"
proof (intro conjI impI)
  show "AjvValidationException type raw
     = \<lparr> statusCode = 400, message = ''Validation failed ('' @ typeName type @ '')'',
         errors = topLevelErrors raw \<rparr>"
    by (simp add: AjvValidationException_def BAD_REQUEST_def)
  show "AjvValidationException_part_000 type raw
     = \<lparr> statusCode = 400, message = ''Validation error ('' @ typeName type @ '')'',
         errors = topLevelErrors raw \<rparr>"
    by (simp add: AjvValidationException_part_000_def BAD_REQUEST_def)
next
  assume v: "validate type schema coerceTypes stripUnknownProps required check h dataOrArray
        = (h', Inl (BadRequestException b))"
  show "\<exists>h1 processed checkErrors.
            processedDataOrArray schema coerceTypes stripUnknownProps h dataOrArray
              = Inr (h1, processed)
          \<and> check h1 processed = (h', False, checkErrors)
          \<and> b = \<lparr> statusCode = 400, message = ''Validation failed ('' @ typeName type @ '')'',
                  errors = topLevelErrors checkErrors \<rparr>"
  proof (cases "processedDataOrArray schema coerceTypes stripUnknownProps h dataOrArray")
    case (Inl e)
    have "e \<noteq> BadRequestException b"
      using processedDataOrArray_Inl [OF Inl] by simp
    with v Inl show ?thesis by (simp add: validate_def)
  next
    case (Inr r)
    obtain h1 processed where r: "r = (h1, processed)" by (cases r)
    obtain h2 ok checkErrors where c: "check h1 processed = (h2, ok, checkErrors)"
      by (cases "check h1 processed") auto
    from v Inr r c have "h2 = h'" "\<not> ok" "b = AjvValidationException type checkErrors"
      by (auto simp: validate_def split: if_splits)
    then show ?thesis using Inr r c
      by (auto simp: AjvValidationException_def BAD_REQUEST_def)
  qed
qed

text \<open>
  Claim C2.  The claim asks for the message \<open>Validation error (<kind>)\<close>, which is what
  the copy of the class in \<open>unnamed/part_000\<close> builds.  The class in
  \<open>src/exceptions.ts\<close>, the module \<open>decorators.ts\<close> imports, builds
  \<open>Validation failed (<kind>)\<close>: for the \<open>body\<close> validator over \<open>ageSchema\<close> and
  the input \<open>{age: "abc"}\<close> the checker rejects, and \<open>validate\<close> raises status 400,
  the one error of the checker and the message \<open>Validation failed (body)\<close>.
\<close>

theorem validate_raises_validation_failed:
  "validate Body ageSchema None None None ajvAgeCheck [Record [(''age'', Str ''abc'')]] (Ref 0)
     = ([Record [(''age'', Str ''abc'')]],
        Inl (BadRequestException
          \<lparr> statusCode = 400, message = ''Validation failed (body)'',
            errors = [\<lparr> instancePath = ''/age'', keyword = ''type'' \<rparr>] \<rparr>))
   \<and> AjvValidationException_part_000 Body (Some [\<lparr> instancePath = ''/age'', keyword = ''type'' \<rparr>])
     = \<lparr> statusCode = 400, message = ''Validation error (body)'',
         errors = [\<lparr> instancePath = ''/age'', keyword = ''type'' \<rparr>] \<rparr>"
proof -
  have parse: "parseNumeric ''abc'' = None"
    by (simp add: parseNumeric_def isDigit_def)
  have chk: "ajvAgeCheck [Record [(''age'', Str ''abc'')]] (Ref 0)
             = ([Record [(''age'', Str ''abc'')]], False, Some [ageError])"
    by (simp add: ajvAgeCheck_def deref_def parse)
  have filtered: "topLevelErrors (Some [ageError]) = [ageError]"
    by (simp add: topLevelErrors_def errorStep_def ageError_def)
  have "validate Body ageSchema None None None ajvAgeCheck [Record [(''age'', Str ''abc'')]] (Ref 0)
     = ([Record [(''age'', Str ''abc'')]],
        Inl (BadRequestException
          \<lparr> statusCode = 400, message = ''Validation failed (body)'', errors = [ageError] \<rparr>))"
    by (simp add: validate_def processedDataOrArray_def truthy_def chk filtered
          AjvValidationException_def BAD_REQUEST_def)
  moreover have "AjvValidationException_part_000 Body (Some [ageError])
     = \<lparr> statusCode = 400, message = ''Validation error (body)'', errors = [ageError] \<rparr>"
    by (simp add: AjvValidationException_part_000_def BAD_REQUEST_def filtered)
  ultimately show ?thesis
    by (simp add: ageError_def)
qed

section \<open>Properties of \<open>buildSchemaValidator\<close>\<close>

text \<open>
  Claim C4, as the code has it.  \<open>buildSchemaValidator\<close> throws exactly when \<open>type\<close>
  is absent, \<open>name\<close> is absent or empty, or the schema is not a valid schema document:
  \<open>TypeGuard.IsSchema\<close> rejects it, which includes the absent schema, or
  \<open>ajv.compile\<close> throws.  With a type, a non-empty name and a schema that passes the
  guard and compiles, it returns a validator with the name and the schema of the config.
\<close>

theorem buildSchemaValidator_fails_iff:
  "((\<exists>e. buildSchemaValidator isKind compile config = Inl e)
      \<longleftrightarrow> (c_type config = None \<or> c_name config = None \<or> c_name config = Some []
           \<or> \<not> IsSchema isKind (c_schema config)
           \<or> (\<exists>msg. compile (c_schema config) = Inl msg)))
   \<and> \<not> IsSchema isKind JUndefined
   \<and> (c_type config = Some type \<and> c_name config = Some name \<and> name \<noteq> []
        \<and> IsSchema isKind (c_schema config) \<and> compile (c_schema config) = Inr check
      \<longrightarrow> (\<exists>validator. buildSchemaValidator isKind compile config = Inr validator
            \<and> sv_name validator = name \<and> sv_schema validator = c_schema config
            \<and> sv_check validator = check))"
proof (intro conjI)
  show "(\<exists>e. buildSchemaValidator isKind compile config = Inl e)
      \<longleftrightarrow> (c_type config = None \<or> c_name config = None \<or> c_name config = Some []
           \<or> \<not> IsSchema isKind (c_schema config)
           \<or> (\<exists>msg. compile (c_schema config) = Inl msg))"
    by (cases "c_type config"; cases "c_name config"; cases "compile (c_schema config)")
       (simp_all add: buildSchemaValidator_def)
  show "\<not> IsSchema isKind JUndefined"
    by (simp add: IsSchema_def)
  show "c_type config = Some type \<and> c_name config = Some name \<and> name \<noteq> []
        \<and> IsSchema isKind (c_schema config) \<and> compile (c_schema config) = Inr check
      \<longrightarrow> (\<exists>validator. buildSchemaValidator isKind compile config = Inr validator
            \<and> sv_name validator = name \<and> sv_schema validator = c_schema config
            \<and> sv_check validator = check)"
    by (simp add: buildSchemaValidator_def)
qed

theorem buildSchemaValidator_fails_iff_witness:
  "c_type \<lparr> c_type = Some Body, c_schema = ageSchema, c_coerceTypes = None,
            c_stripUnknownProps = None, c_name = Some ''CreateBody'', c_required = None \<rparr> = Some Body
   \<and> IsSchema anyKind ageSchema
   \<and> compileAll ageSchema = Inr acceptAll
   \<and> (\<exists>validator.
         buildSchemaValidator anyKind compileAll
           \<lparr> c_type = Some Body, c_schema = ageSchema, c_coerceTypes = None,
             c_stripUnknownProps = None, c_name = Some ''CreateBody'', c_required = None \<rparr>
           = Inr validator
       \<and> sv_name validator = ''CreateBody'' \<and> sv_schema validator = ageSchema
       \<and> sv_check validator = acceptAll)"
  using buildSchemaValidator_fails_iff [of anyKind compileAll
      "\<lparr> c_type = Some Body, c_schema = ageSchema, c_coerceTypes = None,
         c_stripUnknownProps = None, c_name = Some ''CreateBody'', c_required = None \<rparr>"
      Body "''CreateBody''" acceptAll]
  by (simp add: IsSchema_def anyKind_def compileAll_def ageSchema_def)

text \<open>
  The claim C4 as it is worded lets a config fail for its schema only when the schema is
  present; a \<open>param\<close> config with a name and no schema fails all the same.
\<close>

theorem buildSchemaValidator_absent_schema_counterexample:
  \<open>buildSchemaValidator anyKind compileAll
     \<lparr> c_type = Some Param, c_schema = JUndefined, c_coerceTypes = None,
       c_stripUnknownProps = None, c_name = Some ''id'', c_required = None \<rparr>
   = Inl (Error ''Validator "id" expects a TypeBox schema.'')\<close>
  by (simp add: buildSchemaValidator_def IsSchema_def)

section \<open>Properties of \<open>validate\<close> that need no transformation\<close>

lemma coerceType_Undefined: "coerceType type Undefined = Undefined"
  by (simp add: coerceType_def)

lemma processItem_Undefined:
  "processItem coerceTypes stripUnknownProps known jsonSchema h Undefined = (h, Undefined)"
  by (simp add: processItem_def coerceType_Undefined)

text \<open>
  Claim C5.  A validator built with \<open>required\<close> unset or false returns \<open>undefined\<close>
  for the input \<open>undefined\<close> and leaves the store alone, whatever checker
  \<open>ajv.compile\<close> produced: the checker is not consulted and no exception is raised.
  The schema is one whose property map can be computed, which every schema that Ajv
  compiles is (its \<open>anyOf\<close> and \<open>allOf\<close> are arrays of schemas).
\<close>

theorem validate_undefined_not_required:
  assumes "buildSchemaValidator isKind compile config = Inr validator"
    and "\<not> truthy (c_required config)"
    and "knownPropTypes (c_schema config) \<noteq> Inl TypeError"
  shows "sv_validate validator h Undefined = (h, Inr Undefined)"
proof -
  obtain known where k: "knownPropTypes (c_schema config) = Inr known"
    using assms(3) knownPropTypes_Inl by (cases "knownPropTypes (c_schema config)") auto
  have p: "processedDataOrArray (c_schema config) (c_coerceTypes config)
             (c_stripUnknownProps config) h Undefined = Inr (h, Undefined)"
    by (simp add: processedDataOrArray_def isArray_def k processItem_Undefined)
  obtain type check where
    v: "sv_validate validator = validate type (c_schema config) (c_coerceTypes config)
          (c_stripUnknownProps config) (c_required config) check"
    using assms(1)
    by (auto simp: buildSchemaValidator_def split: option.splits if_splits sum.splits)
  show ?thesis
    using assms(2) by (simp add: v validate_def p)
qed

theorem validate_undefined_not_required_witness:
  "buildSchemaValidator anyKind compileAll
     \<lparr> c_type = Some Query, c_schema = ageSchema, c_coerceTypes = Some True,
       c_stripUnknownProps = None, c_name = Some ''q'', c_required = Some False \<rparr>
   = Inr \<lparr> sv_schema = ageSchema, sv_name = ''q'', sv_check = acceptAll,
           sv_validate = validate Query ageSchema (Some True) None (Some False) acceptAll \<rparr>
   \<and> \<not> truthy (Some False)
   \<and> knownPropTypes ageSchema \<noteq> Inl TypeError
   \<and> validate Query ageSchema (Some True) None (Some False) acceptAll [] Undefined
       = ([], Inr Undefined)"
proof -
  have b: "buildSchemaValidator anyKind compileAll
     \<lparr> c_type = Some Query, c_schema = ageSchema, c_coerceTypes = Some True,
       c_stripUnknownProps = None, c_name = Some ''q'', c_required = Some False \<rparr>
   = Inr \<lparr> sv_schema = ageSchema, sv_name = ''q'', sv_check = acceptAll,
           sv_validate = validate Query ageSchema (Some True) None (Some False) acceptAll \<rparr>"
    by (simp add: buildSchemaValidator_def IsSchema_def anyKind_def compileAll_def ageSchema_def)
  have r: "\<not> truthy (Some False)"
    by (simp add: truthy_def)
  have k: "knownPropTypes ageSchema \<noteq> Inl TypeError"
    by (simp add: knownPropTypes_def branches_def ageSchema_def reducer_def)
  from validate_undefined_not_required [OF b, of "[]"] r k b show ?thesis
    by simp
qed

text \<open>
  Claim C6, as the code has it.  With \<open>coerceTypes\<close> and \<open>stripUnknownProps\<close> both
  unset or false, \<open>validate\<close> hands the input as it is to the checker, and when the
  checker accepts it the result is that same value: the same primitive or the same
  object.  \<open>validate\<close> itself writes nothing, so the store afterwards is the one the
  checker leaves: the object is unchanged when the checker writes nothing, and it holds
  what the checker has written otherwise.
\<close>

theorem validate_identity_on_conformant:
  "(\<not> truthy coerceTypes \<and> \<not> truthy stripUnknownProps
      \<and> check h dataOrArray = (h', True, checkErrors)
      \<longrightarrow> validate type schema coerceTypes stripUnknownProps required check h dataOrArray
          = (if dataOrArray = Undefined \<and> \<not> truthy required then h else h', Inr dataOrArray))
   \<and> (\<not> truthy coerceTypes \<and> \<not> truthy stripUnknownProps
      \<and> check h dataOrArray = (h, True, checkErrors)
      \<longrightarrow> validate type schema coerceTypes stripUnknownProps required check h dataOrArray
          = (h, Inr dataOrArray))"
  by (simp add: validate_def processedDataOrArray_def)

theorem validate_identity_on_conformant_witness:
  "\<not> truthy None \<and> \<not> truthy (Some False)
   \<and> ajvAgeCheck [Record [(''age'', Num 42)]] (Ref 0) = ([Record [(''age'', Num 42)]], True, None)
   \<and> validate Body ageSchema None (Some False) (Some True) ajvAgeCheck
        [Record [(''age'', Num 42)]] (Ref 0)
      = ([Record [(''age'', Num 42)]], Inr (Ref 0))
   \<and> ajvAgeCheck [Record [(''age'', Str ''42'')]] (Ref 0) = ([Record [(''age'', Num 42)]], True, None)
   \<and> validate Body ageSchema None (Some False) (Some True) ajvAgeCheck
        [Record [(''age'', Str ''42'')]] (Ref 0)
      = ([Record [(''age'', Num 42)]], Inr (Ref 0))"
proof -
  have a: "\<not> truthy None" and b: "\<not> truthy (Some False)"
    by (simp_all add: truthy_def)
  have parse: "parseNumeric ''42'' = Some 42"
    by (simp add: parseNumeric_def isDigit_def digitsValue_def)
  have c: "ajvAgeCheck [Record [(''age'', Num 42)]] (Ref 0) = ([Record [(''age'', Num 42)]], True, None)"
    by (simp add: ajvAgeCheck_def deref_def)
  have d: "ajvAgeCheck [Record [(''age'', Str ''42'')]] (Ref 0) = ([Record [(''age'', Num 42)]], True, None)"
    by (simp add: ajvAgeCheck_def deref_def parse writeProp_def setProp_def)
  note pure = validate_identity_on_conformant [where coerceTypes = None
      and stripUnknownProps = "Some False" and check = ajvAgeCheck
      and h = "[Record [(''age'', Num 42)]]" and dataOrArray = "Ref 0" and checkErrors = None
      and type = Body and schema = ageSchema and required = "Some True", THEN conjunct2]
  note written = validate_identity_on_conformant [where coerceTypes = None
      and stripUnknownProps = "Some False" and check = ajvAgeCheck
      and h = "[Record [(''age'', Str ''42'')]]" and dataOrArray = "Ref 0"
      and h' = "[Record [(''age'', Num 42)]]" and checkErrors = None
      and type = Body and schema = ageSchema and required = "Some True", THEN conjunct1]
  from pure written a b c d show ?thesis by simp
qed

text \<open>
  The claim C6 as it is worded has the accepted input come back unchanged.  The checker
  compiled from \<open>ageSchema\<close> accepts \<open>{age: "42"}\<close> and, the Ajv instance being made with
  \<open>coerceTypes\<close>, writes the number into it: \<open>validate\<close>, with both of its own flags
  unset, returns the input object holding \<open>{age: 42}\<close>.
\<close>

theorem validate_returns_rewritten_input_counterexample:
  "ajvAgeCheck [Record [(''age'', Str ''42'')]] (Ref 0) = ([Record [(''age'', Num 42)]], True, None)
   \<and> validate Body ageSchema None None None ajvAgeCheck [Record [(''age'', Str ''42'')]] (Ref 0)
      = ([Record [(''age'', Num 42)]], Inr (Ref 0))
   \<and> Record [(''age'', Num 42)] \<noteq> Record [(''age'', Str ''42'')]"
proof -
  have parse: "parseNumeric ''42'' = Some 42"
    by (simp add: parseNumeric_def isDigit_def digitsValue_def)
  have d: "ajvAgeCheck [Record [(''age'', Str ''42'')]] (Ref 0) = ([Record [(''age'', Num 42)]], True, None)"
    by (simp add: ajvAgeCheck_def deref_def parse writeProp_def setProp_def)
  then show ?thesis
    by (simp add: validate_def processedDataOrArray_def truthy_def)
qed

section \<open>Properties of the property map\<close>




















section \<open>The loop over the properties of a record\<close>

lemma deref_old: "a < length h \<Longrightarrow> deref (h @ ext) a = Some (h ! a)"
  by (simp add: deref_def nth_append)

lemma deref_fresh: "deref (h @ [x]) (length h) = Some x"
  by (simp add: deref_def)

lemma readProp_old: "d < length h \<Longrightarrow> readProp (h @ ext) d prop = readProp h d prop"
  by (simp add: readProp_def deref_def nth_append)

lemma readProp_Record:
  "d < length h \<Longrightarrow> h ! d = Record ps \<Longrightarrow> map_of ps prop = Some v \<Longrightarrow> readProp h d prop = v"
  by (simp add: readProp_def deref_def)

lemma writeProp_fresh:
  "writeProp (h @ [Record acc]) (length h) prop v = h @ [Record (setProp acc prop v)]"
  by (simp add: writeProp_def deref_fresh)


lemma setProp_new:
  "prop \<notin> fst ` set acc \<Longrightarrow> prop \<noteq> ''__proto__'' \<Longrightarrow> setProp acc prop v = acc @ [(prop, v)]"
  by (simp add: setProp_def)

lemma setProp_proto: "''__proto__'' \<notin> fst ` set acc \<Longrightarrow> setProp acc ''__proto__'' v = acc"
  by (simp add: setProp_def)

lemma map_other_keys:
  "prop \<notin> fst ` set ps \<Longrightarrow> map (\<lambda>kv. if fst kv = prop then (prop, w) else kv) ps = ps"
  by (induction ps) auto

lemma setProp_there:
  "prop \<notin> fst ` set before \<Longrightarrow> prop \<notin> fst ` set after
   \<Longrightarrow> setProp (before @ (prop, v) # after) prop w = before @ (prop, w) # after"
  by (simp add: setProp_def map_other_keys)

lemma setProp_last:
  "prop \<notin> fst ` set acc \<Longrightarrow> setProp (acc @ [(prop, v)]) prop w = acc @ [(prop, w)]"
  using setProp_there [where before = acc and after = "[]"] by simp

lemma forProps_skip:
  "lookupProp known prop = Absent
   \<Longrightarrow> forProps coerceTypes stripUnknownProps known d p (prop # props) h
       = forProps coerceTypes stripUnknownProps known d p props h"
  by simp

lemma forProps_step:
  "lookupProp known prop \<noteq> Absent
   \<Longrightarrow> forProps coerceTypes stripUnknownProps known d p (prop # props) h
       = forProps coerceTypes stripUnknownProps known d p props
           (let h1 = (if truthy stripUnknownProps then writeProp h p prop (readProp h d prop) else h)
            in if truthy coerceTypes
               then writeProp h1 p prop (coerceFound (lookupProp known prop) (readProp h1 d prop))
               else h1)"
  by (cases "lookupProp known prop") (simp_all add: Let_def)

lemma forProps_strip:
  assumes "truthy stripUnknownProps" and "d < length h" and "h ! d = Record ps"
    and "distinct (map fst ps)"
  shows "set ps2 \<subseteq> set ps \<Longrightarrow> distinct (map fst ps2) \<Longrightarrow> fst ` set acc \<inter> fst ` set ps2 = {}
    \<Longrightarrow> forProps coerceTypes stripUnknownProps known d (length h) (map fst ps2) (h @ [Record acc])
        = h @ [Record (acc @ keptProps coerceTypes known ps2)]"
proof (induction ps2 arbitrary: acc)
  case Nil
  show ?case by simp
next
  case (Cons kv rest)
  obtain key v where kv: "kv = (key, v)" by (cases kv)
  have sub: "set rest \<subseteq> set ps" and dis: "distinct (map fst rest)"
    using Cons.prems by auto
  have fresh: "key \<notin> fst ` set acc" and later: "key \<notin> fst ` set rest"
    using Cons.prems kv by auto
  have "map_of ps key = Some v"
    using Cons.prems(1) assms(4) kv by simp
  then have rd: "readProp (h @ [Record ext]) d key = v" for ext
    using assms(2,3) by (simp add: readProp_old readProp_Record)
  show ?case
  proof (cases "lookupProp known key = Absent")
    case True
    have "fst ` set acc \<inter> fst ` set rest = {}"
      using Cons.prems(3) by auto
    from Cons.IH [OF sub dis this] True kv show ?thesis by simp
  next
    case False
    let ?w = "processedValue coerceTypes (lookupProp known key) v"
    let ?acc = "if key = ''__proto__'' then acc else acc @ [(key, ?w)]"
    have step: "(let h1 = (if truthy stripUnknownProps
                           then writeProp (h @ [Record acc]) (length h) key
                                  (readProp (h @ [Record acc]) d key)
                           else h @ [Record acc])
                 in if truthy coerceTypes
                    then writeProp h1 (length h) key
                           (coerceFound (lookupProp known key) (readProp h1 d key))
                    else h1) = h @ [Record ?acc]"
    proof (cases "key = ''__proto__''")
      case True
      then show ?thesis
        using assms(1) fresh by (simp add: Let_def rd writeProp_fresh setProp_proto)
    next
      case False
      then show ?thesis
        using assms(1) fresh
        by (simp add: Let_def rd writeProp_fresh setProp_new setProp_last processedValue_def)
    qed
    have disj: "fst ` set ?acc \<inter> fst ` set rest = {}"
      using Cons.prems(3) later by auto
    have "forProps coerceTypes stripUnknownProps known d (length h) (map fst (kv # rest))
            (h @ [Record acc])
          = forProps coerceTypes stripUnknownProps known d (length h) (map fst rest)
              (h @ [Record ?acc])"
      using forProps_step [OF False, of coerceTypes stripUnknownProps d "length h" "map fst rest"
          "h @ [Record acc]"] step kv
      by simp
    also have "\<dots> = h @ [Record (?acc @ keptProps coerceTypes known rest)]"
      by (rule Cons.IH [OF sub dis disj])
    finally show ?thesis using False kv by simp
  qed
qed


lemma isObj_Record: "d < length h \<Longrightarrow> h ! d = Record ps \<Longrightarrow> isObj h (Ref d)"
  by (simp add: isObj_def deref_def)

lemma isArray_Record: "d < length h \<Longrightarrow> h ! d = Record ps \<Longrightarrow> \<not> isArray h (Ref d)"
  by (simp add: isArray_def deref_def)

lemma ownKeys_Record: "d < length h \<Longrightarrow> h ! d = Record ps \<Longrightarrow> ownKeys h d = map fst ps"
  by (simp add: ownKeys_def deref_def)

lemma processItem_strip:
  assumes "truthy stripUnknownProps" and "d < length h" and "h ! d = Record ps"
    and "distinct (map fst ps)"
  shows "processItem coerceTypes stripUnknownProps known jsonSchema h (Ref d)
         = (h @ [Record (keptProps coerceTypes known ps)], Ref (length h))"
proof -
  have "forProps coerceTypes stripUnknownProps known d (length h) (map fst ps) (h @ [Record []])
        = h @ [Record ([] @ keptProps coerceTypes known ps)]"
    by (rule forProps_strip [OF assms]) (simp_all add: assms(4))
  then show ?thesis
    using assms by (simp add: processItem_def isObj_Record ownKeys_Record)
qed


lemma processItem_other:
  "\<not> isObj h x
   \<Longrightarrow> processItem coerceTypes stripUnknownProps known jsonSchema h x
       = (h, itemValue coerceTypes jsonSchema x)"
  by (auto simp: processItem_def itemValue_def)

lemma processedDataOrArray_record:
  assumes "truthy coerceTypes \<or> truthy stripUnknownProps"
    and "d < length h" and "h ! d = Record ps" and "knownPropTypes schema = Inr known"
  shows "processedDataOrArray schema coerceTypes stripUnknownProps h (Ref d)
         = Inr (processItem coerceTypes stripUnknownProps known schema h (Ref d))"
  using assms by (simp add: processedDataOrArray_def isArray_Record)



section \<open>The loop over the elements of an array\<close>

lemma isObj_extended:
  assumes "a < length h" and "h ! a = Array ys" and "\<forall>q. x = Ref q \<longrightarrow> q < length h"
  shows "isObj (h[a := Array zs] @ ext) x = isObj h x"
proof (cases x)
  case (Ref q)
  with assms(3) have q: "q < length h" by simp
  show ?thesis
  proof (cases "q = a")
    case True
    with Ref q assms show ?thesis by (simp add: isObj_def deref_def nth_append)
  next
    case False
    with Ref q show ?thesis by (simp add: isObj_def deref_def nth_append)
  qed
qed (simp_all add: isObj_def)

lemma readItem_current:
  "a < length h \<Longrightarrow> readItem (h[a := Array (before @ x # after)] @ ext) a (length before) = x"
  by (simp add: readItem_def deref_def nth_append)

lemma writeItem_current:
  "a < length h
   \<Longrightarrow> writeItem (h[a := Array (before @ x # after)] @ ext) a (length before) v
       = h[a := Array (before @ v # after)] @ ext"
  by (simp add: writeItem_def deref_def nth_append list_update_append)

lemma isObj_recordProps:
  "isObj h x \<Longrightarrow> \<exists>d. x = Ref d \<and> d < length h \<and> h ! d = Record (recordProps h x)"
  by (auto simp: isObj_def recordProps_def deref_def split: val.splits if_splits obj.splits)

lemma forItems_strip:
  assumes "truthy stripUnknownProps" and "a < length h" and "h ! a = Array ys"
  shows "\<forall>q. Ref q \<in> set rest \<longrightarrow> q < length h \<and> (\<forall>qs. h ! q = Record qs \<longrightarrow> distinct (map fst qs))
    \<Longrightarrow> forItems coerceTypes stripUnknownProps known jsonSchema a
          [length before..<length before + length rest]
          (h[a := Array (before @ rest)] @ new)
        = h[a := Array (before @ strippedItems coerceTypes jsonSchema h rest (length h + length new))]
          @ new @ strippedRecords coerceTypes known h rest"
proof (induction rest arbitrary: before new)
  case Nil
  show ?case by simp
next
  case (Cons x xs)
  let ?H = "h[a := Array (before @ x # xs)] @ new"
  define later where "later = [Suc (length before)..<length before + length (x # xs)]"
  have "length before < length before + length (x # xs)"
    by simp
  then have idx: "[length before..<length before + length (x # xs)] = length before # later"
    unfolding later_def by (rule upt_conv_Cons)
  have later: "later = [length (before @ [v])..<length (before @ [v]) + length xs]" for v :: val
    by (simp add: later_def del: upt_Suc)
  have rd: "readItem ?H a (length before) = x"
    using assms(2) by (rule readItem_current)
  have obj: "isObj ?H x = isObj h x"
    using assms(2,3) Cons.prems by (intro isObj_extended) auto
  have len: "length ?H = length h + length new"
    by simp
  have rest: "\<forall>q. Ref q \<in> set xs \<longrightarrow> q < length h \<and> (\<forall>qs. h ! q = Record qs \<longrightarrow> distinct (map fst qs))"
    using Cons.prems by simp
  show ?case
  proof (cases "isObj h x")
    case True
    then obtain d where d: "x = Ref d" "d < length h" "h ! d = Record (recordProps h x)"
      using isObj_recordProps by blast
    have "d \<noteq> a"
      using d(3) assms(3) by auto
    then have Hd: "?H ! d = Record (recordProps h x)" and dH: "d < length ?H"
      using d by (simp_all add: nth_append)
    have dist: "distinct (map fst (recordProps h x))"
      using Cons.prems d by auto
    let ?v = "Ref (length h + length new)"
    let ?R = "Record (keptProps coerceTypes known (recordProps h x))"
    have item: "processItem coerceTypes stripUnknownProps known jsonSchema ?H x = (?H @ [?R], ?v)"
      using processItem_strip [OF assms(1) dH Hd dist] d(1) len by simp
    have wr: "writeItem (?H @ [?R]) a (length before) ?v
              = h[a := Array ((before @ [?v]) @ xs)] @ (new @ [?R])"
      using writeItem_current [OF assms(2), of before x xs "new @ [?R]" ?v] by simp
    have "forItems coerceTypes stripUnknownProps known jsonSchema a
            [length before..<length before + length (x # xs)] ?H
          = forItems coerceTypes stripUnknownProps known jsonSchema a later
              (h[a := Array ((before @ [?v]) @ xs)] @ (new @ [?R]))"
      by (simp only: idx forItems.simps rd item wr prod.case)
    also have "\<dots> = h[a := Array ((before @ [?v])
                          @ strippedItems coerceTypes jsonSchema h xs (length h + length (new @ [?R])))]
                     @ (new @ [?R]) @ strippedRecords coerceTypes known h xs"
      unfolding later [of ?v] by (rule Cons.IH [OF rest])
    finally show ?thesis using True by simp
  next
    case False
    let ?v = "itemValue coerceTypes jsonSchema x"
    have item: "processItem coerceTypes stripUnknownProps known jsonSchema ?H x = (?H, ?v)"
      using False obj by (simp add: processItem_other)
    have wr: "writeItem ?H a (length before) ?v
              = h[a := Array ((before @ [?v]) @ xs)] @ new"
      using writeItem_current [OF assms(2), of before x xs new ?v] by simp
    have "forItems coerceTypes stripUnknownProps known jsonSchema a
            [length before..<length before + length (x # xs)] ?H
          = forItems coerceTypes stripUnknownProps known jsonSchema a later
              (h[a := Array ((before @ [?v]) @ xs)] @ new)"
      by (simp only: idx forItems.simps rd item wr prod.case)
    also have "\<dots> = h[a := Array ((before @ [?v])
                          @ strippedItems coerceTypes jsonSchema h xs (length h + length new))]
                     @ new @ strippedRecords coerceTypes known h xs"
      unfolding later [of ?v] by (rule Cons.IH [OF rest])
    finally show ?thesis using False by simp
  qed
qed

lemma processedDataOrArray_strip_array:
  assumes "truthy stripUnknownProps" and "a < length h" and "h ! a = Array xs"
    and "\<forall>q. Ref q \<in> set xs \<longrightarrow> q < length h \<and> (\<forall>qs. h ! q = Record qs \<longrightarrow> distinct (map fst qs))"
    and "getProp schema ''items'' = Inr items"
    and "knownPropTypes (if nullish items then JObj [] else items) = Inr known"
  shows "processedDataOrArray schema coerceTypes stripUnknownProps h (Ref a)
         = Inr (h[a := Array (strippedItems coerceTypes (if nullish items then JObj [] else items)
                                h xs (length h))]
                  @ strippedRecords coerceTypes known h xs, Ref a)"
proof -
  let ?js = "if nullish items then JObj [] else items"
  have arr: "isArray h (Ref a)" and len: "arrayLength h a = length xs"
    using assms(2,3) by (simp_all add: isArray_def arrayLength_def deref_def)
  have same: "h[a := Array xs] = h"
    using assms(3) by (metis list_update_id)
  have "forItems coerceTypes stripUnknownProps known ?js a
          [length ([] :: val list)..<length ([] :: val list) + length xs]
          (h[a := Array ([] @ xs)] @ [])
        = h[a := Array ([] @ strippedItems coerceTypes ?js h xs (length h + length ([] :: obj list)))]
            @ [] @ strippedRecords coerceTypes known h xs"
    by (rule forItems_strip [OF assms(1,2,3,4)])
  then have loop: "forItems coerceTypes stripUnknownProps known ?js a [0..<length xs] h
                   = h[a := Array (strippedItems coerceTypes ?js h xs (length h))]
                       @ strippedRecords coerceTypes known h xs"
    by (simp add: same)
  show ?thesis
    using assms(1,5,6) loop
    by (simp add: processedDataOrArray_def arr len split: if_splits)
qed

section \<open>Stripping\<close>

lemma processedDataOrArray_strip_record:
  assumes "truthy stripUnknownProps"
    and "d < length h" and "h ! d = Record ps" and "distinct (map fst ps)"
    and "knownPropTypes schema = Inr known"
  shows "processedDataOrArray schema coerceTypes stripUnknownProps h (Ref d)
         = Inr (h @ [Record (keptProps coerceTypes known ps)], Ref (length h))"
  using assms by (simp add: processedDataOrArray_record processItem_strip)

lemma knownPropTypes_ageSchema: "knownPropTypes ageSchema = Inr [''age'' \<mapsto> ''integer'']"
  by (simp add: knownPropTypes_def branches_def ageSchema_def reducer_def addProp_def)

text \<open>
  A name that neither the map nor \<open>Object.prototype\<close> has is dropped, a name of the map
  is kept: the example of the specification, \<open>{age: 42, extra: "x"}\<close>.
\<close>

lemma keptProps_unknown_name:
  "known key = None \<Longrightarrow> key \<notin> set objectPrototypeKeys
   \<Longrightarrow> keptProps coerceTypes known ((key, v) # ps) = keptProps coerceTypes known ps"
  by (simp add: lookupProp_def objectPrototypeKeys_def)

lemma strip_example:
  "processedDataOrArray ageSchema None (Some True)
     [Record [(''age'', Num 42), (''extra'', Str ''x'')]] (Ref 0)
   = Inr ([Record [(''age'', Num 42), (''extra'', Str ''x'')], Record [(''age'', Num 42)]], Ref 1)"
proof -
  have "keptProps None [''age'' \<mapsto> ''integer''] [(''age'', Num 42), (''extra'', Str ''x'')]
        = [(''age'', Num 42)]"
    by (simp add: lookupProp_def objectPrototypeKeys_def processedValue_def truthy_def)
  then show ?thesis
    using processedDataOrArray_strip_record [of "Some True" 0
        "[Record [(''age'', Num 42), (''extra'', Str ''x'')]]"
        "[(''age'', Num 42), (''extra'', Str ''x'')]" ageSchema "[''age'' \<mapsto> ''integer'']" None]
    by (simp add: truthy_def knownPropTypes_ageSchema)
qed

text \<open>
  Claim C8.  The claim has \<open>validate\<close> drop every input property whose name is absent
  from the known-property map.  The loop asks \<open>knownPropTypes[prop] === undefined\<close> of an
  object that inherits from \<open>Object.prototype\<close>: for the schema with the one property
  \<open>age\<close> and the input \<open>{age: 42, constructor: "x", extra: "y"}\<close>, \<open>extra\<close> is dropped
  and \<open>constructor\<close>, which the map does not have, is kept.
\<close>

theorem validate_keeps_constructor:
  "knownPropTypes ageSchema = Inr [''age'' \<mapsto> ''integer'']
   \<and> validate Body ageSchema None (Some True) None ajvAgeCheck
        [Record [(''age'', Num 42), (''constructor'', Str ''x''), (''extra'', Str ''y'')]] (Ref 0)
      = ([Record [(''age'', Num 42), (''constructor'', Str ''x''), (''extra'', Str ''y'')],
          Record [(''age'', Num 42), (''constructor'', Str ''x'')]],
         Inr (Ref 1))"
proof -
  let ?ps = "[(''age'', Num 42), (''constructor'', Str ''x''), (''extra'', Str ''y'')]"
  have kept: "keptProps None [''age'' \<mapsto> ''integer''] ?ps
              = [(''age'', Num 42), (''constructor'', Str ''x'')]"
    by (simp add: lookupProp_def objectPrototypeKeys_def processedValue_def truthy_def)
  have p: "processedDataOrArray ageSchema None (Some True) [Record ?ps] (Ref 0)
           = Inr ([Record ?ps, Record [(''age'', Num 42), (''constructor'', Str ''x'')]], Ref 1)"
    using processedDataOrArray_strip_record [of "Some True" 0 "[Record ?ps]" ?ps ageSchema
        "[''age'' \<mapsto> ''integer'']" None]
    by (simp add: truthy_def knownPropTypes_ageSchema lookupProp_def objectPrototypeKeys_def
          processedValue_def)
  show ?thesis
    unfolding validate_def p by (simp add: knownPropTypes_ageSchema ajvAgeCheck_def deref_def)
qed

section \<open>An array input and a schema without \<open>items\<close>\<close>

lemma knownPropTypes_empty_schema: "knownPropTypes (JObj []) = Inr Map.empty"
  by (simp add: knownPropTypes_def branches_def reducer_def)

text \<open>
  With no \<open>items\<close> the map is the one of the empty schema, which is empty: a record
  element whose names \<open>Object.prototype\<close> does not have becomes an empty record.
\<close>

lemma array_without_items_example:
  "processedDataOrArray ageSchema None (Some True)
     [Array [Ref 1, Str ''s''], Record [(''age'', Num 42)]] (Ref 0)
   = Inr ([Array [Ref 2, Str ''s''], Record [(''age'', Num 42)], Record []], Ref 0)"
proof -
  let ?h = "[Array [Ref 1, Str ''s''], Record [(''age'', Num 42)]]"
  have i: "getProp ageSchema ''items'' = Inr JUndefined"
    by (simp add: ageSchema_def)
  have w: "\<forall>q. Ref q \<in> set [Ref 1, Str ''s''] \<longrightarrow> q < length ?h
             \<and> (\<forall>qs. ?h ! q = Record qs \<longrightarrow> distinct (map fst qs))"
    by simp
  have k: "knownPropTypes (if nullish JUndefined then JObj [] else JUndefined) = Inr Map.empty"
    by (simp add: knownPropTypes_empty_schema)
  have t: "truthy (Some True)"
    by (simp add: truthy_def)
  have "processedDataOrArray ageSchema None (Some True) ?h (Ref 0)
        = Inr (?h[0 := Array (strippedItems None (if nullish JUndefined then JObj [] else JUndefined)
                               ?h [Ref 1, Str ''s''] (length ?h))]
                 @ strippedRecords None Map.empty ?h [Ref 1, Str ''s''], Ref 0)"
    by (rule processedDataOrArray_strip_array [OF t _ _ w i k]) simp_all
  then show ?thesis
    by (simp add: isObj_def deref_def recordProps_def itemValue_def truthy_def lookupProp_def
          objectPrototypeKeys_def)
qed

text \<open>
  Claim C10.  The claim has every record element of the array replaced by an empty
  record.  The property map is empty, but the loop asks \<open>knownPropTypes[prop] ===
  undefined\<close> of an object that inherits from \<open>Object.prototype\<close>: the element
  \<open>{constructor: "x", a: 1}\<close> is replaced by \<open>{constructor: "x"}\<close>.
\<close>

theorem validate_array_without_items_keeps_constructor:
  "getProp ageSchema ''items'' = Inr JUndefined
   \<and> knownPropTypes (JObj []) = Inr Map.empty
   \<and> processedDataOrArray ageSchema None (Some True)
        [Array [Ref 1], Record [(''constructor'', Str ''x''), (''a'', Num 1)]] (Ref 0)
      = Inr ([Array [Ref 2], Record [(''constructor'', Str ''x''), (''a'', Num 1)],
              Record [(''constructor'', Str ''x'')]], Ref 0)
   \<and> validate Body ageSchema None (Some True) None ajvAgeCheck
        [Array [Ref 1], Record [(''constructor'', Str ''x''), (''a'', Num 1)]] (Ref 0)
      = ([Array [Ref 2], Record [(''constructor'', Str ''x''), (''a'', Num 1)],
          Record [(''constructor'', Str ''x'')]], Inr (Ref 0))"
proof -
  let ?h = "[Array [Ref 1], Record [(''constructor'', Str ''x''), (''a'', Num 1)]]"
  let ?h' = "[Array [Ref 2], Record [(''constructor'', Str ''x''), (''a'', Num 1)],
              Record [(''constructor'', Str ''x'')]]"
  have i: "getProp ageSchema ''items'' = Inr JUndefined"
    by (simp add: ageSchema_def)
  have w: "\<forall>q. Ref q \<in> set [Ref 1] \<longrightarrow> q < length ?h
             \<and> (\<forall>qs. ?h ! q = Record qs \<longrightarrow> distinct (map fst qs))"
    by simp
  have k: "knownPropTypes (if nullish JUndefined then JObj [] else JUndefined) = Inr Map.empty"
    by (simp add: knownPropTypes_empty_schema)
  have t: "truthy (Some True)"
    by (simp add: truthy_def)
  have "processedDataOrArray ageSchema None (Some True) ?h (Ref 0)
        = Inr (?h[0 := Array (strippedItems None (if nullish JUndefined then JObj [] else JUndefined)
                               ?h [Ref 1] (length ?h))]
                 @ strippedRecords None Map.empty ?h [Ref 1], Ref 0)"
    by (rule processedDataOrArray_strip_array [OF t _ _ w i k]) simp_all
  then have p: "processedDataOrArray ageSchema None (Some True) ?h (Ref 0) = Inr (?h', Ref 0)"
    by (simp add: isObj_def deref_def recordProps_def itemValue_def truthy_def lookupProp_def
          objectPrototypeKeys_def processedValue_def)
  show ?thesis
    unfolding validate_def p
    by (simp add: i knownPropTypes_empty_schema ajvAgeCheck_def deref_def)
qed

section \<open>Numeric-looking strings\<close>

declare showNat.simps [simp del]















section \<open>Coercion\<close>









section \<open>What \<open>validate\<close> writes\<close>








end
